theory Spec2Isabelle
  imports Main "HOL-Library.Word"
begin

unbundle bit_operations_syntax

section \<open>Machine types\<close>

text \<open>
  The GLib integer types of \<^verbatim>\<open>gstmd5sum.c\<close>: \<^verbatim>\<open>guint8\<close>, \<^verbatim>\<open>guint\<close> and
  \<^verbatim>\<open>GstClockTime\<close> (a \<^verbatim>\<open>guint64\<close>). A pointer is the address it holds.
\<close>

type_synonym guint8 = "8 word"
type_synonym guint = "32 word"
type_synonym GstClockTime = "64 word"
type_synonym addr = nat

text \<open>
  Memory as the element sees it: the byte stored at an address, or \<open>None\<close> where the
  address is not readable.
\<close>

type_synonym memory = "addr \<Rightarrow> guint8 option"

section \<open>The digest: MD5\<close>

text \<open>
  Modelled from the spec: the digest itself is computed by GLib
  (\<^verbatim>\<open>g_checksum_new (G_CHECKSUM_MD5)\<close>, \<^verbatim>\<open>g_checksum_update\<close>,
  \<^verbatim>\<open>g_checksum_get_string\<close>), which is not part of this repository. The spec fixes it as
  "MD5 producing a 32-character lowercase hexadecimal string"; the definitions below
  are MD5 as RFC 1321 gives it: padding to a multiple of 64 bytes, four 32-bit chaining
  words, 64 steps per block, little-endian output.
\<close>

definition md5_K :: "32 word list" where
  "md5_K = [
    0xd76aa478, 0xe8c7b756, 0x242070db, 0xc1bdceee, 0xf57c0faf, 0x4787c62a, 0xa8304613, 0xfd469501,
    0x698098d8, 0x8b44f7af, 0xffff5bb1, 0x895cd7be, 0x6b901122, 0xfd987193, 0xa679438e, 0x49b40821,
    0xf61e2562, 0xc040b340, 0x265e5a51, 0xe9b6c7aa, 0xd62f105d, 0x02441453, 0xd8a1e681, 0xe7d3fbc8,
    0x21e1cde6, 0xc33707d6, 0xf4d50d87, 0x455a14ed, 0xa9e3e905, 0xfcefa3f8, 0x676f02d9, 0x8d2a4c8a,
    0xfffa3942, 0x8771f681, 0x6d9d6122, 0xfde5380c, 0xa4beea44, 0x4bdecfa9, 0xf6bb4b60, 0xbebfbc70,
    0x289b7ec6, 0xeaa127fa, 0xd4ef3085, 0x04881d05, 0xd9d4d039, 0xe6db99e5, 0x1fa27cf8, 0xc4ac5665,
    0xf4292244, 0x432aff97, 0xab9423a7, 0xfc93a039, 0x655b59c3, 0x8f0ccc92, 0xffeff47d, 0x85845dd1,
    0x6fa87e4f, 0xfe2ce6e0, 0xa3014314, 0x4e0811a1, 0xf7537e82, 0xbd3af235, 0x2ad7d2bb, 0xeb86d391]"

definition md5_S :: "nat list" where
  "md5_S = [7, 12, 17, 22, 7, 12, 17, 22, 7, 12, 17, 22, 7, 12, 17, 22,
            5, 9, 14, 20, 5, 9, 14, 20, 5, 9, 14, 20, 5, 9, 14, 20,
            4, 11, 16, 23, 4, 11, 16, 23, 4, 11, 16, 23, 4, 11, 16, 23,
            6, 10, 15, 21, 6, 10, 15, 21, 6, 10, 15, 21, 6, 10, 15, 21]"

definition rotl32 :: "32 word \<Rightarrow> nat \<Rightarrow> 32 word" where
  "rotl32 x n = push_bit n x OR drop_bit (32 - n) x"

type_synonym md5_state = "32 word \<times> 32 word \<times> 32 word \<times> 32 word"

definition md5_step :: "32 word list \<Rightarrow> md5_state \<Rightarrow> nat \<Rightarrow> md5_state" where
  "md5_step m st i =
     (case st of (a, b, c, d) \<Rightarrow>
        let (f, g) =
              (if i < 16 then ((b AND c) OR (NOT b AND d), i)
               else if i < 32 then ((d AND b) OR (NOT d AND c), (5 * i + 1) mod 16)
               else if i < 48 then (b XOR c XOR d, (3 * i + 5) mod 16)
               else (c XOR (b OR NOT d), (7 * i) mod 16));
            t = a + f + md5_K ! i + m ! g
        in (d, b + rotl32 t (md5_S ! i), b, c))"

definition le32 :: "guint8 list \<Rightarrow> 32 word" where
  "le32 bs = foldr (\<lambda>b acc. push_bit 8 acc OR ucast b) bs 0"

fun md5_words :: "guint8 list \<Rightarrow> 32 word list" where
  "md5_words (a # b # c # d # rest) = le32 [a, b, c, d] # md5_words rest"
| "md5_words _ = []"

definition md5_block :: "md5_state \<Rightarrow> guint8 list \<Rightarrow> md5_state" where
  "md5_block st blk =
     (case st of (a0, b0, c0, d0) \<Rightarrow>
        case foldl (md5_step (md5_words blk)) st [0..<64] of (a, b, c, d) \<Rightarrow>
          (a0 + a, b0 + b, c0 + c, d0 + d))"

definition md5_pad :: "guint8 list \<Rightarrow> guint8 list" where
  "md5_pad msg =
     (let n = length msg;
          z = (119 - n mod 64) mod 64;
          bits = (of_nat (8 * n) :: 64 word)
      in msg @ [0x80] @ replicate z 0 @ map (\<lambda>k. ucast (drop_bit (8 * k) bits)) [0..<8])"

function md5_blocks :: "md5_state \<Rightarrow> guint8 list \<Rightarrow> md5_state" where
  "md5_blocks st bs =
     (if length bs < 64 then st else md5_blocks (md5_block st (take 64 bs)) (drop 64 bs))"
  by pat_completeness auto
termination
  by (relation "measure (\<lambda>(st, bs). length bs)") auto

declare md5_blocks.simps [simp del]

definition md5_out :: "32 word \<Rightarrow> guint8 list" where
  "md5_out w = map (\<lambda>k. ucast (drop_bit (8 * k) w)) [0..<4]"

definition md5_digest :: "guint8 list \<Rightarrow> guint8 list" where
  "md5_digest msg =
     (case md5_blocks (0x67452301, 0xefcdab89, 0x98badcfe, 0x10325476) (md5_pad msg) of
        (a, b, c, d) \<Rightarrow> concat (map md5_out [a, b, c, d]))"

definition hex_digit :: "nat \<Rightarrow> char" where
  "hex_digit n = ''0123456789abcdef'' ! n"

definition hex_byte :: "guint8 \<Rightarrow> string" where
  "hex_byte b = [hex_digit (unat b div 16), hex_digit (unat b mod 16)]"

definition md5_hex :: "guint8 list \<Rightarrow> string" where
  "md5_hex msg = concat (map hex_byte (md5_digest msg))"

text \<open>
  Modelled from the spec: \<^verbatim>\<open>GChecksum\<close> and its three functions belong to GLib. A
  checksum object holds the bytes fed to it so far; \<^verbatim>\<open>g_checksum_update\<close> reads
  \<open>len\<close> bytes starting at the pointer it is given and has no result where one of them
  is not readable (in C the read is out of bounds); \<^verbatim>\<open>g_checksum_get_string\<close> yields
  the digest of everything fed, in lowercase hexadecimal.
\<close>

datatype GChecksumType = G_CHECKSUM_MD5

record GChecksum =
  checksum_type :: GChecksumType
  fed :: "guint8 list"

definition read_bytes :: "memory \<Rightarrow> addr \<Rightarrow> nat \<Rightarrow> guint8 list option" where
  "read_bytes m p n = those (map m [p ..< p + n])"

definition g_checksum_new :: "GChecksumType \<Rightarrow> GChecksum" where
  "g_checksum_new t = \<lparr>checksum_type = t, fed = []\<rparr>"

definition g_checksum_update :: "memory \<Rightarrow> GChecksum \<Rightarrow> addr \<Rightarrow> nat \<Rightarrow> GChecksum option" where
  "g_checksum_update m c p len =
     (case read_bytes m p len of
        None \<Rightarrow> None
      | Some bs \<Rightarrow> Some (c\<lparr>fed := fed c @ bs\<rparr>))"

definition g_checksum_get_string :: "GChecksum \<Rightarrow> string" where
  "g_checksum_get_string c = (case checksum_type c of G_CHECKSUM_MD5 \<Rightarrow> md5_hex (fed c))"

section \<open>Formatting\<close>

text \<open>
  The \<^verbatim>\<open>%d\<close> conversion of \<^verbatim>\<open>g_message\<close>: a signed decimal number. The source passes
  it \<^verbatim>\<open>GST_BUFFER_SIZE (outbuf)\<close>, a \<^verbatim>\<open>guint\<close>, so the 32 bits are read as an
  \<^verbatim>\<open>int\<close>.
\<close>

function decimal :: "nat \<Rightarrow> string" where
  "decimal n =
     (if n < 10 then [''0123456789'' ! n]
      else decimal (n div 10) @ [''0123456789'' ! (n mod 10)])"
  by pat_completeness auto
termination
  by (relation "measure id") auto

declare decimal.simps [simp del]

definition printf_d :: "guint \<Rightarrow> string" where
  "printf_d x = (if sint x < 0 then CHR ''-'' # decimal (nat (- sint x)) else decimal (nat (sint x)))"

section \<open>The element\<close>

text \<open>The property ids of the anonymous enum at lines 55-59.\<close>

definition PROP_0 :: guint where
  "PROP_0 = 0"

definition PROP_SILENT :: guint where
  "PROP_SILENT = 1"

text \<open>
  Modelled from the spec: \<^verbatim>\<open>gstmd5sum.h\<close>, which declares \<^verbatim>\<open>struct _Gstmd5sum\<close>, is
  not among the sources. The source touches one field of it, \<^verbatim>\<open>silent\<close>, and the spec
  gives the stage no other state ("a struct/class holding only the SilentFlag").
\<close>

record Gstmd5sum =
  silent :: bool

text \<open>
  A \<^verbatim>\<open>GstBuffer *\<close>: the address of the buffer object (\<open>buf_self\<close>, the value of
  the pointer) and the fields of the object: the pointer to the payload
  (\<^verbatim>\<open>GST_BUFFER_DATA\<close>, which this file never reads), and the size and the timestamp,
  which it reads with \<^verbatim>\<open>GST_BUFFER_SIZE\<close> and \<^verbatim>\<open>GST_BUFFER_TIMESTAMP\<close>.
\<close>

record GstBuffer =
  buf_self :: addr
  buf_data :: addr
  buf_size :: guint
  buf_timestamp :: GstClockTime

datatype GstFlowReturn =
    GST_FLOW_OK
  | GST_FLOW_NOT_LINKED
  | GST_FLOW_WRONG_STATE
  | GST_FLOW_UNEXPECTED
  | GST_FLOW_NOT_NEGOTIATED
  | GST_FLOW_ERROR
  | GST_FLOW_NOT_SUPPORTED

text \<open>
  What a call does to the outside, in the order it does it: the controller
  synchronisation, \<^verbatim>\<open>g_print\<close>, \<^verbatim>\<open>g_message\<close>,
  \<^verbatim>\<open>G_OBJECT_WARN_INVALID_PROPERTY_ID\<close>, and the read of memory by
  \<^verbatim>\<open>g_checksum_update\<close> (pointer and length).
\<close>

datatype effect =
    SyncValues GstClockTime
  | GPrint string
  | GMessage string
  | WarnInvalidPropertyId guint
  | ChecksumUpdate addr nat

text \<open>A read outside readable memory is undefined in C; the model stops there.\<close>

datatype fault = OutOfBoundsRead

text \<open>
  Modelled from the spec: the controller belongs to the GStreamer controller library, not
  to this repository. \<^verbatim>\<open>silent\<close> is the only property \<^verbatim>\<open>gst_md5sum_class_init\<close>
  installs, so the controller is the value it writes to \<^verbatim>\<open>silent\<close> when synchronised
  at a timestamp, if it writes one.
\<close>

type_synonym GstController = "GstClockTime \<Rightarrow> bool option"

text \<open>
  The state a call runs in: the element instance, the memory, the controller bound to the
  element, and the effects so far (oldest first).
\<close>

record world =
  element :: Gstmd5sum
  mem :: memory
  controller :: GstController
  out :: "effect list"

text \<open>\<^verbatim>\<open>g_param_spec_boolean\<close> with its flags, as \<^verbatim>\<open>gst_md5sum_class_init\<close> installs it.\<close>

datatype param_flag = G_PARAM_READABLE | G_PARAM_WRITABLE | GST_PARAM_CONTROLLABLE

record GParamSpecBoolean =
  name :: string
  nick :: string
  blurb :: string
  default_value :: bool
  flags :: "param_flag list"

definition gst_md5sum_class_init :: "(guint \<times> GParamSpecBoolean) list" where
  "gst_md5sum_class_init =
     [(PROP_SILENT,
       \<lparr>name = ''silent'', nick = ''Silent'', blurb = ''Produce verbose output ?'',
        default_value = False,
        flags = [G_PARAM_READABLE, G_PARAM_WRITABLE, GST_PARAM_CONTROLLABLE]\<rparr>)]"

definition gst_md5sum_init :: "Gstmd5sum \<Rightarrow> Gstmd5sum" where
  "gst_md5sum_init flt = flt\<lparr>silent := False\<rparr>"

definition gst_md5sum_set_property :: "world \<Rightarrow> guint \<Rightarrow> bool \<Rightarrow> world" where
  "gst_md5sum_set_property w prop_id v =
     (if prop_id = PROP_SILENT then w\<lparr>element := (element w)\<lparr>silent := v\<rparr>\<rparr>
      else w\<lparr>out := out w @ [WarnInvalidPropertyId prop_id]\<rparr>)"

text \<open>
  \<^verbatim>\<open>gst_md5sum_get_property\<close> writes into \<^verbatim>\<open>*value\<close>: the model takes the
  \<^verbatim>\<open>GValue\<close>'s boolean and returns it after the call.
\<close>

definition gst_md5sum_get_property :: "world \<Rightarrow> guint \<Rightarrow> bool \<Rightarrow> world \<times> bool" where
  "gst_md5sum_get_property w prop_id v =
     (if prop_id = PROP_SILENT then (w, silent (element w))
      else (w\<lparr>out := out w @ [WarnInvalidPropertyId prop_id]\<rparr>, v))"

definition GST_CLOCK_TIME_NONE :: GstClockTime where
  "GST_CLOCK_TIME_NONE = - 1"

definition GST_CLOCK_TIME_IS_VALID :: "GstClockTime \<Rightarrow> bool" where
  "GST_CLOCK_TIME_IS_VALID t = (t \<noteq> GST_CLOCK_TIME_NONE)"

text \<open>
  Modelled from the spec: \<^verbatim>\<open>gst_object_sync_values\<close> is the controller library's
  ("\<^verbatim>\<open>sync_at(timestamp)\<close>, which applies any property changes scheduled up to and
  including \<^verbatim>\<open>timestamp\<close>"). A change reaches the element through its own
  \<^verbatim>\<open>set_property\<close>.
\<close>

definition gst_object_sync_values :: "world \<Rightarrow> GstClockTime \<Rightarrow> world" where
  "gst_object_sync_values w t =
     (let w1 = w\<lparr>out := out w @ [SyncValues t]\<rparr>
      in case controller w t of
           None \<Rightarrow> w1
         | Some v \<Rightarrow> gst_md5sum_set_property w1 PROP_SILENT v)"

definition g_print :: "world \<Rightarrow> string \<Rightarrow> world" where
  "g_print w s = w\<lparr>out := out w @ [GPrint s]\<rparr>"

definition g_message :: "world \<Rightarrow> string \<Rightarrow> world" where
  "g_message w s = w\<lparr>out := out w @ [GMessage s]\<rparr>"

definition marker :: string where
  "marker = ''I'm plugged, therefore I'm in.'' @ [CHR 0x0A]"

definition size_text :: "guint \<Rightarrow> string" where
  "size_text n = ''Received buffer: '' @ printf_d n @ '' bytes''"

definition digest_text :: "string \<Rightarrow> string" where
  "digest_text d = ''Buffer's digest: '' @ d"

text \<open>
  \<^verbatim>\<open>gst_md5sum_transform_ip\<close>, lines 179-198. The buffer is passed by pointer and
  transformed in place, so the model returns the buffer object as it is after the call,
  beside the state and the result. Line 193 gives \<^verbatim>\<open>g_checksum_update\<close> the pointer
  \<^verbatim>\<open>outbuf\<close> itself, which is \<open>buf_self outbuf\<close>; its length parameter is a
  \<^verbatim>\<open>gssize\<close>, to which a \<^verbatim>\<open>guint\<close> converts without change where \<^verbatim>\<open>gssize\<close> has
  64 bits.
\<close>

definition gst_md5sum_transform_ip ::
    "world \<Rightarrow> GstBuffer \<Rightarrow> world \<times> GstBuffer \<times> (fault + GstFlowReturn)" where
  "gst_md5sum_transform_ip w outbuf =
     (let w1 = (if GST_CLOCK_TIME_IS_VALID (buf_timestamp outbuf)
                then gst_object_sync_values w (buf_timestamp outbuf) else w);
          w2 = (if silent (element w1) = False then g_print w1 marker else w1);
          w3 = g_message w2 (size_text (buf_size outbuf));
          md5sum = g_checksum_new G_CHECKSUM_MD5;
          w4 = w3\<lparr>out := out w3 @ [ChecksumUpdate (buf_self outbuf) (unat (buf_size outbuf))]\<rparr>
      in case g_checksum_update (mem w4) md5sum (buf_self outbuf) (unat (buf_size outbuf)) of
           None \<Rightarrow> (w4, outbuf, Inl OutOfBoundsRead)
         | Some md5sum' \<Rightarrow>
             let digest = g_checksum_get_string md5sum';
                 w5 = g_message w4 (digest_text digest)
             in (w5, outbuf, Inr GST_FLOW_OK))"

section \<open>Observing a call\<close>

text \<open>
  The effects of one call are those it appends to \<open>out\<close>. The two \<^verbatim>\<open>g_message\<close>
  entries are told apart by their fixed beginnings.
\<close>

definition emitted :: "world \<Rightarrow> world \<Rightarrow> effect list" where
  "emitted w w' = drop (length (out w)) (out w')"

definition is_size_entry :: "effect \<Rightarrow> bool" where
  "is_size_entry e = (case e of GMessage s \<Rightarrow> take 17 s = ''Received buffer: '' | _ \<Rightarrow> False)"

definition is_digest_entry :: "effect \<Rightarrow> bool" where
  "is_digest_entry e = (case e of GMessage s \<Rightarrow> take 17 s = ''Buffer's digest: '' | _ \<Rightarrow> False)"

definition is_read :: "effect \<Rightarrow> bool" where
  "is_read e = (case e of ChecksumUpdate p n \<Rightarrow> True | _ \<Rightarrow> False)"

text \<open>
  The state in which line 187 reads \<^verbatim>\<open>filter->silent\<close>: after lines 184-185, which
  synchronise when the timestamp is valid.
\<close>

definition synced :: "world \<Rightarrow> GstBuffer \<Rightarrow> world" where
  "synced w b = (if GST_CLOCK_TIME_IS_VALID (buf_timestamp b)
                 then gst_object_sync_values w (buf_timestamp b) else w)"

section \<open>Concrete inputs\<close>

text \<open>
  \<open>place p bs m\<close> is the memory \<open>m\<close> with the bytes \<open>bs\<close> readable from address \<open>p\<close>.
  In the inputs below a buffer object of 120 bytes lies at address 4096 (its first
  bytes are those of a pointer, as the head of a \<^verbatim>\<open>GstBuffer\<close> is) and its payload
  at address 8192; nothing else is readable.
\<close>

definition place :: "addr \<Rightarrow> guint8 list \<Rightarrow> memory \<Rightarrow> memory" where
  "place p bs m = (\<lambda>a. if p \<le> a \<and> a < p + length bs then Some (bs ! (a - p)) else m a)"

definition object_bytes :: "guint8 list" where
  "object_bytes = [0x40, 0x1c, 0x60, 0, 0, 0, 0, 0] @ replicate 112 0"

definition world_abc :: world where
  "world_abc =
     \<lparr>element = \<lparr>silent = False\<rparr>,
      mem = place 4096 object_bytes (place 8192 [0x61, 0x62, 0x63] (\<lambda>a. None)),
      controller = (\<lambda>t. None),
      out = []\<rparr>"

definition buffer_abc :: GstBuffer where
  "buffer_abc =
     \<lparr>buf_self = 4096, buf_data = 8192, buf_size = 3, buf_timestamp = GST_CLOCK_TIME_NONE\<rparr>"

definition buffer_empty :: GstBuffer where
  "buffer_empty = buffer_abc\<lparr>buf_size := 0\<rparr>"

definition buffer_200 :: GstBuffer where
  "buffer_200 = buffer_abc\<lparr>buf_size := 200\<rparr>"

definition world_large :: world where
  "world_large =
     world_abc\<lparr>mem := place 4096 object_bytes (place 8192 (replicate 200 0x61) (\<lambda>a. None))\<rparr>"

definition world_scheduled :: world where
  "world_scheduled = world_abc\<lparr>controller := (\<lambda>t. if t = 1000 then Some True else None)\<rparr>"

definition buffer_at_1000 :: GstBuffer where
  "buffer_at_1000 = buffer_abc\<lparr>buf_timestamp := 1000\<rparr>"

definition world_fresh :: world where
  "world_fresh = world_abc\<lparr>element := gst_md5sum_init \<lparr>silent = True\<rparr>\<rparr>"

section \<open>What a call does\<close>

subsection \<open>The controller synchronisation\<close>

lemma sync_out: "out (gst_object_sync_values w t) = out w @ [SyncValues t]"
  by (simp add: gst_object_sync_values_def gst_md5sum_set_property_def Let_def split: option.split)

lemma sync_mem: "mem (gst_object_sync_values w t) = mem w"
  by (simp add: gst_object_sync_values_def gst_md5sum_set_property_def Let_def split: option.split)

lemma synced_invalid: "\<not> GST_CLOCK_TIME_IS_VALID (buf_timestamp b) \<Longrightarrow> synced w b = w"
  by (simp add: synced_def)

lemma silent_synced:
  "silent (element (synced w b)) =
     (if GST_CLOCK_TIME_IS_VALID (buf_timestamp b)
      then (case controller w (buf_timestamp b) of None \<Rightarrow> silent (element w) | Some v \<Rightarrow> v)
      else silent (element w))"
  by (simp add: synced_def gst_object_sync_values_def gst_md5sum_set_property_def Let_def
      split: option.split)

lemma none_invalid: "\<not> GST_CLOCK_TIME_IS_VALID GST_CLOCK_TIME_NONE"
  by (simp add: GST_CLOCK_TIME_IS_VALID_def)

lemma valid_1000: "GST_CLOCK_TIME_IS_VALID 1000"
  by (simp add: GST_CLOCK_TIME_IS_VALID_def GST_CLOCK_TIME_NONE_def)

subsection \<open>The effects, the result and the frame of \<open>gst_md5sum_transform_ip\<close>\<close>

lemma transform_ip_out:
  "out (fst (gst_md5sum_transform_ip w b)) =
     out w
     @ (if GST_CLOCK_TIME_IS_VALID (buf_timestamp b) then [SyncValues (buf_timestamp b)] else [])
     @ (if silent (element (if GST_CLOCK_TIME_IS_VALID (buf_timestamp b)
                            then gst_object_sync_values w (buf_timestamp b) else w))
        then [] else [GPrint marker])
     @ [GMessage (size_text (buf_size b)), ChecksumUpdate (buf_self b) (unat (buf_size b))]
     @ (case read_bytes (mem w) (buf_self b) (unat (buf_size b)) of
          None \<Rightarrow> []
        | Some bs \<Rightarrow> [GMessage (digest_text (md5_hex bs))])"
  by (simp add: gst_md5sum_transform_ip_def Let_def g_print_def g_message_def sync_out sync_mem
      g_checksum_update_def g_checksum_new_def g_checksum_get_string_def split: option.split)

lemma emitted_transform_ip:
  "emitted w (fst (gst_md5sum_transform_ip w b)) =
     (if GST_CLOCK_TIME_IS_VALID (buf_timestamp b) then [SyncValues (buf_timestamp b)] else [])
     @ (if silent (element (synced w b)) then [] else [GPrint marker])
     @ [GMessage (size_text (buf_size b)), ChecksumUpdate (buf_self b) (unat (buf_size b))]
     @ (case read_bytes (mem w) (buf_self b) (unat (buf_size b)) of
          None \<Rightarrow> []
        | Some bs \<Rightarrow> [GMessage (digest_text (md5_hex bs))])"
  unfolding emitted_def synced_def transform_ip_out by simp

lemma transform_ip_result:
  "snd (snd (gst_md5sum_transform_ip w b)) =
     (case read_bytes (mem w) (buf_self b) (unat (buf_size b)) of
        None \<Rightarrow> Inl OutOfBoundsRead
      | Some bs \<Rightarrow> Inr GST_FLOW_OK)"
  by (simp add: gst_md5sum_transform_ip_def Let_def g_print_def g_message_def sync_out sync_mem
      g_checksum_update_def g_checksum_new_def g_checksum_get_string_def split: option.split)

lemma transform_ip_frame:
  "mem (fst (gst_md5sum_transform_ip w b)) = mem w
   \<and> controller (fst (gst_md5sum_transform_ip w b)) = controller w
   \<and> fst (snd (gst_md5sum_transform_ip w b)) = b"
  by (simp add: gst_md5sum_transform_ip_def Let_def g_print_def g_message_def sync_out sync_mem
      gst_object_sync_values_def gst_md5sum_set_property_def
      g_checksum_update_def g_checksum_new_def g_checksum_get_string_def split: option.split)

subsection \<open>Telling the entries apart\<close>

lemma size_text_is_size_entry: "is_size_entry (GMessage (size_text n))"
  by (simp add: is_size_entry_def size_text_def)

lemma digest_text_is_digest_entry: "is_digest_entry (GMessage (digest_text d))"
  by (simp add: is_digest_entry_def digest_text_def)

lemma size_text_not_digest_entry: "\<not> is_digest_entry (GMessage (size_text n))"
  by (simp add: is_digest_entry_def size_text_def)

lemma digest_text_not_size_entry: "\<not> is_size_entry (GMessage (digest_text d))"
  by (simp add: is_size_entry_def digest_text_def)

lemma other_not_entry:
  "\<not> is_size_entry (GPrint s)" "\<not> is_digest_entry (GPrint s)"
  "\<not> is_size_entry (SyncValues t)" "\<not> is_digest_entry (SyncValues t)"
  "\<not> is_size_entry (ChecksumUpdate p n)" "\<not> is_digest_entry (ChecksumUpdate p n)"
  by (simp_all add: is_size_entry_def is_digest_entry_def)

lemma not_read:
  "\<not> is_read (SyncValues t)" "\<not> is_read (GPrint s)" "\<not> is_read (GMessage s)"
  "is_read (ChecksumUpdate p n)"
  by (simp_all add: is_read_def)

lemma count_marker:
  "count_list (emitted w (fst (gst_md5sum_transform_ip w b))) (GPrint marker)
     = (if silent (element (synced w b)) then 0 else 1)"
  by (simp add: emitted_transform_ip split: option.split)

lemma count_size_entry:
  "length (filter is_size_entry (emitted w (fst (gst_md5sum_transform_ip w b)))) = 1"
  by (simp add: emitted_transform_ip size_text_is_size_entry digest_text_not_size_entry
      other_not_entry split: option.split)

lemma count_digest_entry:
  "length (filter is_digest_entry (emitted w (fst (gst_md5sum_transform_ip w b))))
     = (case read_bytes (mem w) (buf_self b) (unat (buf_size b)) of None \<Rightarrow> 0 | Some bs \<Rightarrow> 1)"
  by (simp add: emitted_transform_ip digest_text_is_digest_entry size_text_not_digest_entry
      other_not_entry split: option.split)

lemma before_read:
  "takeWhile (\<lambda>e. \<not> is_read e) (emitted w (fst (gst_md5sum_transform_ip w b))) =
     (if GST_CLOCK_TIME_IS_VALID (buf_timestamp b) then [SyncValues (buf_timestamp b)] else [])
     @ (if silent (element (synced w b)) then [] else [GPrint marker])
     @ [GMessage (size_text (buf_size b))]"
  by (simp add: emitted_transform_ip takeWhile_append not_read)

subsection \<open>Reading memory\<close>

lemma those_map_Some: "those (map Some xs) = Some xs"
  by (induction xs) simp_all

lemma those_None: "None \<in> set xs \<Longrightarrow> those xs = None"
  by (induction xs) (auto split: option.split)

lemma read_bytes_0: "read_bytes m p 0 = Some []"
  by (simp add: read_bytes_def)

lemma read_bytes_place:
  "n \<le> length bs \<Longrightarrow> read_bytes (place p bs m) p n = Some (take n bs)"
proof -
  assume n: "n \<le> length bs"
  have "map (place p bs m) [p ..< p + n] = map Some (take n bs)"
    using n by (auto simp add: list_eq_iff_nth_eq place_def)
  then show ?thesis
    by (simp add: read_bytes_def those_map_Some)
qed

lemma read_bytes_place_skip:
  "q + n \<le> p \<or> p + length bs \<le> q \<Longrightarrow> read_bytes (place p bs m) q n = read_bytes m q n"
proof -
  assume d: "q + n \<le> p \<or> p + length bs \<le> q"
  have "map (place p bs m) [q ..< q + n] = map m [q ..< q + n]"
    using d by (auto simp add: place_def)
  then show ?thesis
    by (simp only: read_bytes_def)
qed

lemma read_bytes_None:
  "m (p + k) = None \<Longrightarrow> k < n \<Longrightarrow> read_bytes m p n = None"
proof -
  assume a: "m (p + k) = None" "k < n"
  have "p + k \<in> set [p ..< p + n]"
    using a(2) by simp
  then have "m (p + k) \<in> m ` set [p ..< p + n]"
    by (rule imageI)
  then have "None \<in> set (map m [p ..< p + n])"
    using a(1) by (simp only: set_map)
  then show ?thesis
    by (simp only: read_bytes_def those_None)
qed

subsection \<open>The digest and the texts at the concrete inputs\<close>

lemma md5_empty: "md5_hex [] = ''d41d8cd98f00b204e9800998ecf8427e''"
  by code_simp

lemma md5_abc: "md5_hex [0x61, 0x62, 0x63] = ''900150983cd24fb0d6963f7d28e17f72''"
  by code_simp

text \<open>A message of two blocks, from the test suite of RFC 1321.\<close>

lemma md5_two_blocks:
  "md5_hex (map (\<lambda>c. of_nat (of_char c))
     ''12345678901234567890123456789012345678901234567890123456789012345678901234567890'')
   = ''57edf4a22be3c955ac49da2e2107b67a''"
  by code_simp

lemma md5_obj: "md5_hex [0x40, 0x1c, 0x60] = ''ff986db853ca7c788dec66171826a610''"
  by code_simp

lemma size_text_0: "size_text 0 = ''Received buffer: 0 bytes''"
  by code_simp

lemma size_text_3: "size_text 3 = ''Received buffer: 3 bytes''"
  by code_simp

lemma size_text_200: "size_text 200 = ''Received buffer: 200 bytes''"
  by (simp add: size_text_def printf_d_def decimal.simps)

lemma size_text_negative: "size_text 0x80000000 = ''Received buffer: -2147483648 bytes''"
  by (simp add: size_text_def printf_d_def decimal.simps)

lemma abc_fields:
  "buf_self buffer_abc = 4096" "buf_data buffer_abc = 8192"
  "unat (buf_size buffer_abc) = 3" "buf_size buffer_abc = 3"
  "buf_timestamp buffer_abc = GST_CLOCK_TIME_NONE"
  by (simp_all add: buffer_abc_def)

lemma b200_fields:
  "buf_self buffer_200 = 4096" "buf_data buffer_200 = 8192"
  "unat (buf_size buffer_200) = 200" "buf_size buffer_200 = 200"
  "\<not> GST_CLOCK_TIME_IS_VALID (buf_timestamp buffer_200)"
  by (simp_all add: buffer_200_def buffer_abc_def none_invalid)

lemma synced_abc: "synced world_abc buffer_abc = world_abc"
  by (simp add: synced_invalid buffer_abc_def none_invalid)

lemma read_abc_object: "read_bytes (mem world_abc) 4096 3 = Some [0x40, 0x1c, 0x60]"
  by (simp add: world_abc_def read_bytes_place object_bytes_def)

lemma read_abc_data: "read_bytes (mem world_abc) 8192 3 = Some [0x61, 0x62, 0x63]"
  by (simp add: world_abc_def read_bytes_place_skip object_bytes_def read_bytes_place)

lemma read_abc_object_200: "read_bytes (mem world_abc) 4096 200 = None"
  by (rule read_bytes_None [where k = 120]) (simp_all add: world_abc_def place_def object_bytes_def)

lemma read_abc_data_200: "read_bytes (mem world_abc) 8192 200 = None"
  by (rule read_bytes_None [where k = 3]) (simp_all add: world_abc_def place_def object_bytes_def)

lemma read_large_data: "read_bytes (mem world_large) 8192 200 = Some (replicate 200 0x61)"
  by (simp add: world_large_def world_abc_def read_bytes_place_skip object_bytes_def read_bytes_place)

lemma read_large_object: "read_bytes (mem world_large) 4096 200 = None"
  by (rule read_bytes_None [where k = 120])
     (simp_all add: world_large_def world_abc_def place_def object_bytes_def)

lemma abc_emitted:
  "emitted world_abc (fst (gst_md5sum_transform_ip world_abc buffer_abc)) =
     [GPrint marker, GMessage ''Received buffer: 3 bytes'', ChecksumUpdate 4096 3,
      GMessage ''Buffer's digest: ff986db853ca7c788dec66171826a610'']"
  by (simp add: emitted_transform_ip synced_abc abc_fields none_invalid read_abc_object
      size_text_3 md5_obj digest_text_def)
     (simp add: world_abc_def)

section \<open>Properties\<close>

subsection \<open>The digest of a buffer\<close>

text \<open>
  C1. Processing the three bytes "abc" should log the size 3 and the digest
  900150983cd24fb0d6963f7d28e17f72, the MD5 digest of the buffer's bytes. At the input
  \<open>world_abc\<close>, \<open>buffer_abc\<close> the payload is "abc" and its MD5 digest is the expected
  one, the size entry says 3, but the bytes the call digests are the three at the
  address of the buffer object, the pointer line 193 passes: the digest entry is that of
  the bytes 40 1c 60, and no entry carries the digest of "abc".
\<close>

theorem abc_digest_of_object_bytes:
  "read_bytes (mem world_abc) (buf_data buffer_abc) (unat (buf_size buffer_abc))
     = Some [0x61, 0x62, 0x63]
   \<and> md5_hex [0x61, 0x62, 0x63] = ''900150983cd24fb0d6963f7d28e17f72''
   \<and> read_bytes (mem world_abc) (buf_self buffer_abc) (unat (buf_size buffer_abc))
     = Some [0x40, 0x1c, 0x60]
   \<and> snd (snd (gst_md5sum_transform_ip world_abc buffer_abc)) = Inr GST_FLOW_OK
   \<and> emitted world_abc (fst (gst_md5sum_transform_ip world_abc buffer_abc)) =
       [GPrint marker, GMessage ''Received buffer: 3 bytes'', ChecksumUpdate 4096 3,
        GMessage ''Buffer's digest: ff986db853ca7c788dec66171826a610'']
   \<and> GMessage ''Buffer's digest: 900150983cd24fb0d6963f7d28e17f72''
       \<notin> set (emitted world_abc (fst (gst_md5sum_transform_ip world_abc buffer_abc)))"
  by (simp add: abc_fields read_abc_data read_abc_object md5_abc transform_ip_result abc_emitted)

subsection \<open>The marker and the two entries\<close>

text \<open>
  C2. For every buffer the marker should be printed exactly once when the silent flag,
  as line 187 reads it, is false and not at all when it is true, and the size entry and
  the digest entry should be logged for every buffer whatever the flag. The marker and
  the size entry are so for every input (\<open>count_marker\<close>, \<open>count_size_entry\<close>). The
  digest entry is not: at \<open>world_large\<close>, \<open>buffer_200\<close> the 200 payload bytes are
  readable and the flag is false, the marker and the size entry are logged once each,
  but line 193 reads 200 bytes from the address of the 120-byte buffer object, out of
  bounds, and no digest entry is logged.
\<close>

theorem large_buffer_no_digest_entry:
  "read_bytes (mem world_large) (buf_data buffer_200) (unat (buf_size buffer_200))
     = Some (replicate 200 0x61)
   \<and> silent (element (synced world_large buffer_200)) = False
   \<and> count_list (emitted world_large (fst (gst_md5sum_transform_ip world_large buffer_200)))
        (GPrint marker) = 1
   \<and> length (filter is_size_entry
        (emitted world_large (fst (gst_md5sum_transform_ip world_large buffer_200)))) = 1
   \<and> length (filter is_digest_entry
        (emitted world_large (fst (gst_md5sum_transform_ip world_large buffer_200)))) = 0"
proof -
  have s: "silent (element (synced world_large buffer_200)) = False"
    by (simp add: synced_invalid b200_fields) (simp add: world_large_def world_abc_def)
  show ?thesis
    by (simp add: s count_marker count_size_entry count_digest_entry b200_fields
        read_large_data read_large_object)
qed

subsection \<open>The order of the effects\<close>

text \<open>
  C3. The effects of a call are, in this order: the synchronisation at the buffer's
  timestamp (only when the timestamp is valid), the marker (only when the flag is false
  in the state the synchronisation leaves), the size entry, the read of the bytes to
  digest, the digest entry. With a valid timestamp the flag that decides on the marker is
  read from the synchronised state: a value the controller writes at this timestamp is
  the value read.
\<close>

theorem effects_in_order:
  "emitted w (fst (gst_md5sum_transform_ip w b)) =
     (if GST_CLOCK_TIME_IS_VALID (buf_timestamp b) then [SyncValues (buf_timestamp b)] else [])
     @ (if silent (element (synced w b)) then [] else [GPrint marker])
     @ [GMessage (size_text (buf_size b)), ChecksumUpdate (buf_self b) (unat (buf_size b))]
     @ (case read_bytes (mem w) (buf_self b) (unat (buf_size b)) of
          None \<Rightarrow> []
        | Some bs \<Rightarrow> [GMessage (digest_text (md5_hex bs))])
   \<and> (GST_CLOCK_TIME_IS_VALID (buf_timestamp b) \<longrightarrow>
        synced w b = gst_object_sync_values w (buf_timestamp b)
        \<and> (\<forall>v. controller w (buf_timestamp b) = Some v \<longrightarrow> silent (element (synced w b)) = v))"
  by (simp add: emitted_transform_ip silent_synced) (simp add: synced_def)

theorem effects_in_order_witness:
  "GST_CLOCK_TIME_IS_VALID (buf_timestamp buffer_at_1000)
   \<and> controller world_scheduled (buf_timestamp buffer_at_1000) = Some True
   \<and> silent (element world_scheduled) = False
   \<and> silent (element (synced world_scheduled buffer_at_1000)) = True
   \<and> emitted world_scheduled (fst (gst_md5sum_transform_ip world_scheduled buffer_at_1000)) =
       [SyncValues 1000, GMessage ''Received buffer: 3 bytes'', ChecksumUpdate 4096 3,
        GMessage ''Buffer's digest: ff986db853ca7c788dec66171826a610'']"
proof -
  have v: "GST_CLOCK_TIME_IS_VALID (buf_timestamp buffer_at_1000)"
    by (simp add: buffer_at_1000_def valid_1000)
  have c: "controller world_scheduled (buf_timestamp buffer_at_1000) = Some True"
    by (simp add: world_scheduled_def buffer_at_1000_def)
  have s: "silent (element world_scheduled) = False"
    by (simp add: world_scheduled_def world_abc_def)
  have r: "read_bytes (mem world_scheduled) (buf_self buffer_at_1000)
             (unat (buf_size buffer_at_1000)) = Some [0x40, 0x1c, 0x60]"
    using read_abc_object by (simp add: world_scheduled_def buffer_at_1000_def buffer_abc_def)
  have f: "buf_timestamp buffer_at_1000 = 1000" "buf_self buffer_at_1000 = 4096"
          "buf_size buffer_at_1000 = 3"
    by (simp_all add: buffer_at_1000_def buffer_abc_def)
  from effects_in_order [of world_scheduled buffer_at_1000] v c
  have t: "silent (element (synced world_scheduled buffer_at_1000)) = True"
    by blast
  from effects_in_order [of world_scheduled buffer_at_1000]
  have "emitted world_scheduled (fst (gst_md5sum_transform_ip world_scheduled buffer_at_1000)) =
       [SyncValues 1000, GMessage (size_text 3), ChecksumUpdate 4096 3,
        GMessage (digest_text (md5_hex [0x40, 0x1c, 0x60]))]"
    using v t r f by simp
  then show ?thesis
    using v c s t by (simp add: size_text_3 md5_obj digest_text_def)
qed

subsection \<open>The empty buffer\<close>

text \<open>
  C4. A call on a buffer of size 0 returns \<^verbatim>\<open>GST_FLOW_OK\<close>, logs the size 0 and logs the
  MD5 digest of the empty input, d41d8cd98f00b204e9800998ecf8427e: no byte is read,
  whatever the memory.
\<close>

theorem empty_buffer:
  "buf_size b = 0 \<Longrightarrow>
     snd (snd (gst_md5sum_transform_ip w b)) = Inr GST_FLOW_OK
     \<and> emitted w (fst (gst_md5sum_transform_ip w b)) =
         (if GST_CLOCK_TIME_IS_VALID (buf_timestamp b) then [SyncValues (buf_timestamp b)] else [])
         @ (if silent (element (synced w b)) then [] else [GPrint marker])
         @ [GMessage ''Received buffer: 0 bytes'', ChecksumUpdate (buf_self b) 0,
            GMessage ''Buffer's digest: d41d8cd98f00b204e9800998ecf8427e'']"
  by (simp add: transform_ip_result emitted_transform_ip read_bytes_0 size_text_0 md5_empty
      digest_text_def)

theorem empty_buffer_witness:
  "buf_size buffer_empty = 0
   \<and> snd (snd (gst_md5sum_transform_ip world_abc buffer_empty)) = Inr GST_FLOW_OK
   \<and> emitted world_abc (fst (gst_md5sum_transform_ip world_abc buffer_empty)) =
       [GPrint marker, GMessage ''Received buffer: 0 bytes'', ChecksumUpdate 4096 0,
        GMessage ''Buffer's digest: d41d8cd98f00b204e9800998ecf8427e'']"
proof -
  have z: "buf_size buffer_empty = 0"
    by (simp add: buffer_empty_def)
  have s: "silent (element (synced world_abc buffer_empty)) = False"
    by (simp add: synced_def buffer_empty_def buffer_abc_def none_invalid) (simp add: world_abc_def)
  have f: "buf_self buffer_empty = 4096" "\<not> GST_CLOCK_TIME_IS_VALID (buf_timestamp buffer_empty)"
    by (simp_all add: buffer_empty_def buffer_abc_def none_invalid)
  show ?thesis
    using z s f empty_buffer [OF z, of world_abc] by simp
qed

subsection \<open>The buffer passes through\<close>

text \<open>
  C5. A call writes neither to the memory nor to the buffer object: the buffer the caller
  has after the call is the one it passed, with the same size and the same payload bytes.
\<close>

theorem pass_through:
  "mem (fst (gst_md5sum_transform_ip w b)) = mem w
   \<and> fst (snd (gst_md5sum_transform_ip w b)) = b
   \<and> read_bytes (mem (fst (gst_md5sum_transform_ip w b)))
        (buf_data (fst (snd (gst_md5sum_transform_ip w b))))
        (unat (buf_size (fst (snd (gst_md5sum_transform_ip w b)))))
      = read_bytes (mem w) (buf_data b) (unat (buf_size b))"
  by (simp add: transform_ip_frame)

subsection \<open>A declared size beyond the readable bytes\<close>

text \<open>
  C6, as stated: a buffer whose declared size exceeds its readable bytes makes the call
  fail with a \<^verbatim>\<open>MalformedBufferError\<close> and log neither the size nor the digest. The
  source has no such check and no such error. At \<open>world_abc\<close>, \<open>buffer_200\<close> the declared
  size is 200, three payload bytes are readable (and 120 at the object), and the size
  entry is logged all the same, before the read.
\<close>

theorem malformed_buffer_counterexample:
  "read_bytes (mem world_abc) (buf_data buffer_200) (unat (buf_size buffer_200)) = None
   \<and> read_bytes (mem world_abc) (buf_self buffer_200) (unat (buf_size buffer_200)) = None
   \<and> emitted world_abc (fst (gst_md5sum_transform_ip world_abc buffer_200)) =
       [GPrint marker, GMessage ''Received buffer: 200 bytes'', ChecksumUpdate 4096 200]
   \<and> length (filter is_size_entry
        (emitted world_abc (fst (gst_md5sum_transform_ip world_abc buffer_200)))) = 1"
proof -
  have s: "silent (element (synced world_abc buffer_200)) = False"
    by (simp add: synced_invalid b200_fields) (simp add: world_abc_def)
  show ?thesis
    by (simp add: b200_fields read_abc_data_200 read_abc_object_200 emitted_transform_ip s
        size_text_200 count_size_entry [unfolded emitted_transform_ip])
       (simp add: is_size_entry_def)
qed

text \<open>
  C6, amended: the call checks no bounds and has no \<^verbatim>\<open>MalformedBufferError\<close>. For
  every buffer, whatever its declared size, the size entry is logged before any byte is
  read; then either the call returns \<^verbatim>\<open>GST_FLOW_OK\<close> with the digest entry logged, or
  the read is out of bounds and no digest entry is logged.
\<close>

theorem size_logged_before_read:
  "length (filter is_size_entry
     (takeWhile (\<lambda>e. \<not> is_read e) (emitted w (fst (gst_md5sum_transform_ip w b))))) = 1
   \<and> (snd (snd (gst_md5sum_transform_ip w b)) = Inr GST_FLOW_OK
        \<and> length (filter is_digest_entry (emitted w (fst (gst_md5sum_transform_ip w b)))) = 1
      \<or> snd (snd (gst_md5sum_transform_ip w b)) = Inl OutOfBoundsRead
        \<and> length (filter is_digest_entry (emitted w (fst (gst_md5sum_transform_ip w b)))) = 0)"
proof (intro conjI)
  show "length (filter is_size_entry
     (takeWhile (\<lambda>e. \<not> is_read e) (emitted w (fst (gst_md5sum_transform_ip w b))))) = 1"
    by (simp add: before_read size_text_is_size_entry other_not_entry)
  show "snd (snd (gst_md5sum_transform_ip w b)) = Inr GST_FLOW_OK
        \<and> length (filter is_digest_entry (emitted w (fst (gst_md5sum_transform_ip w b)))) = 1
      \<or> snd (snd (gst_md5sum_transform_ip w b)) = Inl OutOfBoundsRead
        \<and> length (filter is_digest_entry (emitted w (fst (gst_md5sum_transform_ip w b)))) = 0"
    by (cases "read_bytes (mem w) (buf_self b) (unat (buf_size b))")
       (simp_all add: transform_ip_result count_digest_entry)
qed

subsection \<open>Success on a well-formed buffer\<close>

text \<open>
  C7. A call on a buffer whose payload is readable for its declared size should return
  success. At \<open>world_large\<close>, \<open>buffer_200\<close> the 200 payload bytes are readable, but the
  call reads 200 bytes from the address of the buffer object, where 120 are readable:
  the read of line 193 is out of bounds and the call does not reach its
  \<^verbatim>\<open>return GST_FLOW_OK\<close> nor the digest entry.
\<close>

theorem large_buffer_out_of_bounds:
  "read_bytes (mem world_large) (buf_data buffer_200) (unat (buf_size buffer_200))
     = Some (replicate 200 0x61)
   \<and> read_bytes (mem world_large) (buf_self buffer_200) (unat (buf_size buffer_200)) = None
   \<and> snd (snd (gst_md5sum_transform_ip world_large buffer_200)) = Inl OutOfBoundsRead
   \<and> emitted world_large (fst (gst_md5sum_transform_ip world_large buffer_200)) =
       [GPrint marker, GMessage ''Received buffer: 200 bytes'', ChecksumUpdate 4096 200]"
proof -
  have s: "silent (element (synced world_large buffer_200)) = False"
    by (simp add: synced_invalid b200_fields) (simp add: world_large_def world_abc_def)
  show ?thesis
    by (simp add: b200_fields read_large_data read_large_object transform_ip_result
        emitted_transform_ip s size_text_200)
qed

subsection \<open>The silent property\<close>

text \<open>
  C8. \<^verbatim>\<open>gst_md5sum_init\<close> sets the flag to false, which is also the default of the
  installed property; a call on a freshly initialised element prints the marker once,
  unless the synchronisation of this very call sets the flag.
\<close>

theorem fresh_stage_prints_marker:
  "element w = gst_md5sum_init f \<Longrightarrow>
   \<not> (GST_CLOCK_TIME_IS_VALID (buf_timestamp b) \<and> controller w (buf_timestamp b) = Some True) \<Longrightarrow>
     silent (gst_md5sum_init f) = False
     \<and> map (\<lambda>(i, p). (i, default_value p)) gst_md5sum_class_init = [(PROP_SILENT, False)]
     \<and> silent (element w) = False
     \<and> count_list (emitted w (fst (gst_md5sum_transform_ip w b))) (GPrint marker) = 1"
  by (auto simp add: count_marker silent_synced gst_md5sum_init_def gst_md5sum_class_init_def
      split: option.split)

theorem fresh_stage_prints_marker_witness:
  "element world_fresh = gst_md5sum_init \<lparr>silent = True\<rparr>
   \<and> \<not> (GST_CLOCK_TIME_IS_VALID (buf_timestamp buffer_abc)
         \<and> controller world_fresh (buf_timestamp buffer_abc) = Some True)
   \<and> silent (element world_fresh) = False
   \<and> count_list (emitted world_fresh (fst (gst_md5sum_transform_ip world_fresh buffer_abc)))
        (GPrint marker) = 1"
proof -
  have e: "element world_fresh = gst_md5sum_init \<lparr>silent = True\<rparr>"
    by (simp add: world_fresh_def)
  have c: "\<not> (GST_CLOCK_TIME_IS_VALID (buf_timestamp buffer_abc)
         \<and> controller world_fresh (buf_timestamp buffer_abc) = Some True)"
    by (simp add: abc_fields none_invalid)
  show ?thesis
    using e c fresh_stage_prints_marker [OF e c] by simp
qed

text \<open>
  C9. Setting the silent property to \<open>v\<close> and reading it back gives \<open>v\<close>, whatever the
  \<^verbatim>\<open>GValue\<close> held before the read.
\<close>

theorem set_get_silent_roundtrip:
  "snd (gst_md5sum_get_property (gst_md5sum_set_property w PROP_SILENT v) PROP_SILENT v0) = v"
  by (simp add: gst_md5sum_get_property_def gst_md5sum_set_property_def)

text \<open>
  C10. \<^verbatim>\<open>set_property\<close> with an id other than that of the silent property writes
  nothing: the element, the memory and the controller are as before, and the one effect
  is the warning.
\<close>

theorem set_property_other_id_unchanged:
  "prop_id \<noteq> PROP_SILENT \<Longrightarrow>
     gst_md5sum_set_property w prop_id v = w\<lparr>out := out w @ [WarnInvalidPropertyId prop_id]\<rparr>
     \<and> element (gst_md5sum_set_property w prop_id v) = element w
     \<and> silent (element (gst_md5sum_set_property w prop_id v)) = silent (element w)"
  by (simp add: gst_md5sum_set_property_def)

theorem set_property_other_id_unchanged_witness:
  "PROP_0 \<noteq> PROP_SILENT
   \<and> silent (element (gst_md5sum_set_property
        \<lparr>element = \<lparr>silent = True\<rparr>, mem = (\<lambda>a. None), controller = (\<lambda>t. None), out = []\<rparr>
        PROP_0 False)) = True"
proof -
  have h: "PROP_0 \<noteq> PROP_SILENT"
    by (simp add: PROP_0_def PROP_SILENT_def)
  show ?thesis
    using h set_property_other_id_unchanged [OF h,
      of "\<lparr>element = \<lparr>silent = True\<rparr>, mem = (\<lambda>a. None), controller = (\<lambda>t. None), out = []\<rparr>" False]
    by simp
qed

end
